theory Spec2Isabelle
  imports Main "HOL-Library.Word" "HOL-Library.Sublist"
begin

section \<open>ThrowStream: a backtrace-like exception built by string accumulation\<close>

text \<open>
  The development embeds \<^verbatim>\<open>ThrowStream.h\<close>. A \<^verbatim>\<open>std::string\<close> is a
  \<^typ>\<open>string\<close> (a list of bytes, so embedded NUL bytes are ordinary elements), the class
  is a record with its single member, every mutating member function takes the object and
  returns the updated object, and the preprocessor symbol
  \<^verbatim>\<open>THROWSTREAM_EXCEPTIONSOURCE\<close> is a boolean parameter passed to every function whose
  text depends on it.
\<close>

subsection \<open>The local \<^verbatim>\<open>stringstream\<close>\<close>

text \<open>
  Each member function that formats text creates a fresh \<^verbatim>\<open>stringstream\<close>, inserts into
  it and reads it back with \<^verbatim>\<open>str()\<close>. The stream is never given a manipulator, so its
  formatting state stays the default one (decimal, no width, no fill, no \<^verbatim>\<open>boolalpha\<close>,
  classic locale) and the stream is modelled by the characters written so far.
\<close>

type_synonym stringstream = string

text \<open>\<^verbatim>\<open>unsigned long\<close>, at the 64 bits of an LP64 platform; the source only prints it.\<close>

type_synonym ulong = "64 word"

definition stringstream_new :: stringstream where
  "stringstream_new = []"

definition str :: "stringstream \<Rightarrow> string" where
  "str ss = ss"

definition newline :: char where
  "newline = CHR 0x0A"

text \<open>Decimal digits of an unsigned number, most significant first, as \<^verbatim>\<open>num_put\<close> writes them.\<close>

definition digit_char :: "nat \<Rightarrow> char" where
  "digit_char d = ''0123456789'' ! d"

function show_nat :: "nat \<Rightarrow> string" where
  "show_nat n = (if n < 10 then [digit_char n] else show_nat (n div 10) @ [digit_char (n mod 10)])"
  by pat_completeness auto
termination
  by (relation "measure id") auto

declare show_nat.simps [simp del]

definition show_int :: "int \<Rightarrow> string" where
  "show_int i = (if i < 0 then CHR ''-'' # show_nat (nat (- i)) else show_nat (nat i))"

text \<open>The inserters \<^verbatim>\<open>ss << x\<close> used by the source, one per argument type.\<close>

definition put_char :: "stringstream \<Rightarrow> char \<Rightarrow> stringstream" where
  "put_char ss c = ss @ [c]"

text \<open>A \<^verbatim>\<open>const char *\<close> argument is given by the characters before its terminating NUL.\<close>

definition put_cstr :: "stringstream \<Rightarrow> string \<Rightarrow> stringstream" where
  "put_cstr ss s = ss @ s"

definition put_string :: "stringstream \<Rightarrow> string \<Rightarrow> stringstream" where
  "put_string ss s = ss @ s"

definition put_ulong :: "stringstream \<Rightarrow> ulong \<Rightarrow> stringstream" where
  "put_ulong ss n = ss @ show_nat (unat n)"

definition put_int :: "stringstream \<Rightarrow> 32 word \<Rightarrow> stringstream" where
  "put_int ss i = ss @ show_int (sint i)"

definition put_bool :: "stringstream \<Rightarrow> bool \<Rightarrow> stringstream" where
  "put_bool ss b = ss @ (if b then ''1'' else ''0'')"

subsection \<open>The class\<close>

text \<open>The member \<^verbatim>\<open>_desc\<close>: the current, full backtrace.\<close>

record ThrowStream =
  desc :: string

text \<open>The state of an object when a constructor body starts: \<^verbatim>\<open>_desc\<close> is default-constructed.\<close>

definition ThrowStream_init :: ThrowStream where
  "ThrowStream_init = \<lparr>desc = []\<rparr>"

text \<open>
  A \<^verbatim>\<open>const exception &\<close> as \<^verbatim>\<open>Append\<close> sees it: either the \<^verbatim>\<open>dynamic_cast\<close> to
  \<^verbatim>\<open>ThrowStream\<close> succeeds and the object's \<^verbatim>\<open>_desc\<close> is read, or it fails and only the
  C string returned by \<^verbatim>\<open>what()\<close> is available.
\<close>

datatype exception = IsThrowStream ThrowStream | Foreign string

text \<open>
  What the template \<^verbatim>\<open>operator<<(const T &)\<close> can be instantiated with here: the types
  whose standard inserter is modelled above, and \<^verbatim>\<open>ThrowStream\<close> itself, for which the
  header declares an inserter. Floating-point arguments are left out.
\<close>

datatype streamable =
    Chr char
  | CStr string
  | Str string
  | ULong ulong
  | SInt "32 word"
  | Bool bool
  | TS ThrowStream

text \<open>\<^verbatim>\<open>ostream & operator<<(ostream & os, const ThrowStream & ts)\<close>\<close>

definition ostream_shl_ThrowStream :: "stringstream \<Rightarrow> ThrowStream \<Rightarrow> stringstream" where
  "ostream_shl_ThrowStream os ts = put_string os (desc ts)"

text \<open>\<^verbatim>\<open>ss << rhs\<close> after overload resolution on the type of \<^verbatim>\<open>rhs\<close>.\<close>

fun put :: "stringstream \<Rightarrow> streamable \<Rightarrow> stringstream" where
  "put ss (Chr c) = put_char ss c"
| "put ss (CStr s) = put_cstr ss s"
| "put ss (Str s) = put_string ss s"
| "put ss (ULong n) = put_ulong ss n"
| "put ss (SInt i) = put_int ss i"
| "put ss (Bool b) = put_bool ss b"
| "put ss (TS ts) = ostream_shl_ThrowStream ss ts"

text \<open>\<^verbatim>\<open>ThrowStream & Append(const unsigned long line, const string & file, const string & function)\<close>\<close>

definition Append :: "bool \<Rightarrow> ThrowStream \<Rightarrow> ulong \<Rightarrow> string \<Rightarrow> string \<Rightarrow> ThrowStream" where
  "Append exceptionsource this line file function =
     (let ss0 = stringstream_new;
          ss1 = put_char ss0 newline;
          ss2 = (if exceptionsource
                 then put_cstr (put_string (put_cstr (put_ulong (put_cstr (put_string
                        (put_cstr ss1 ''( '') file) '':'') line) '' , in '') function)
                        ''() )    ->  ''
                 else ss1)
      in this\<lparr>desc := desc this @ str ss2\<rparr>)"

text \<open>\<^verbatim>\<open>template<typename T> ThrowStream & operator<<(const T & rhs)\<close>\<close>

definition shl :: "ThrowStream \<Rightarrow> streamable \<Rightarrow> ThrowStream" where
  "shl this rhs =
     (let ss0 = stringstream_new;
          ss1 = put ss0 rhs
      in this\<lparr>desc := desc this @ str ss1\<rparr>)"

text \<open>
  \<^verbatim>\<open>ThrowStream & Append(const exception & ex, const unsigned long line, const string & file,
  const string & function)\<close>
\<close>

definition Append_ex ::
  "bool \<Rightarrow> ThrowStream \<Rightarrow> exception \<Rightarrow> ulong \<Rightarrow> string \<Rightarrow> string \<Rightarrow> ThrowStream" where
  "Append_ex exceptionsource this ex line file function =
     (let this1 = (case ex of
                     IsThrowStream pts \<Rightarrow> this\<lparr>desc := desc this @ desc pts\<rparr>
                   | Foreign m \<Rightarrow> shl (Append exceptionsource this line file function) (CStr m))
      in Append exceptionsource this1 line file function)"

text \<open>\<^verbatim>\<open>ThrowStream(const unsigned long line, const string & file, const string & function)\<close>\<close>

definition ThrowStream_ctor :: "bool \<Rightarrow> ulong \<Rightarrow> string \<Rightarrow> string \<Rightarrow> ThrowStream" where
  "ThrowStream_ctor exceptionsource line file function =
     Append exceptionsource ThrowStream_init line file function"

text \<open>
  \<^verbatim>\<open>ThrowStream(const exception & ex, unsigned long line, const string & file,
  const string & function)\<close>
\<close>

definition ThrowStream_ctor_ex ::
  "bool \<Rightarrow> exception \<Rightarrow> ulong \<Rightarrow> string \<Rightarrow> string \<Rightarrow> ThrowStream" where
  "ThrowStream_ctor_ex exceptionsource ex line file function =
     Append_ex exceptionsource ThrowStream_init ex line file function"

text \<open>
  \<^verbatim>\<open>char const* what() const throw()\<close> returns \<^verbatim>\<open>_desc.c_str()\<close>: a pointer to the
  characters of the buffer followed by a terminating NUL, with no length. The message a
  caller receives is what a reader of that pointer sees, the characters before the first
  NUL byte, so a NUL byte inside the buffer ends the message early.
\<close>

definition NUL :: char where
  "NUL = CHR 0x00"

definition c_str :: "string \<Rightarrow> string" where
  "c_str s = s @ [NUL]"

definition read_c_string :: "string \<Rightarrow> string" where
  "read_c_string bytes = takeWhile (\<lambda>c. c \<noteq> NUL) bytes"

definition what :: "ThrowStream \<Rightarrow> string" where
  "what this = read_c_string (c_str (desc this))"

text \<open>The member function is \<^verbatim>\<open>const\<close>; \<open>what_call\<close> makes the object after the call explicit.\<close>

definition what_call :: "ThrowStream \<Rightarrow> string \<times> ThrowStream" where
  "what_call this = (what this, this)"

subsection \<open>The text of one location marker\<close>

text \<open>
  The characters one call of \<open>Append\<close> adds: a newline, and with the source detail compiled
  in, the file, line and function in the fixed layout.
\<close>

definition marker :: "bool \<Rightarrow> ulong \<Rightarrow> string \<Rightarrow> string \<Rightarrow> string" where
  "marker exceptionsource line file function =
     (if exceptionsource
      then [newline] @ ''( '' @ file @ '':'' @ show_nat (unat line) @ '' , in '' @ function
             @ ''() )    ->  ''
      else [newline])"

text \<open>
  The standard text of a value, stated per type: a character is itself, a string is its
  characters, an unsigned or signed integer is its decimal numeral, a \<^verbatim>\<open>bool\<close> is
  \<^verbatim>\<open>1\<close> or \<^verbatim>\<open>0\<close>, and a \<^verbatim>\<open>ThrowStream\<close> is its accumulated buffer.
\<close>

fun textOf :: "streamable \<Rightarrow> string" where
  "textOf (Chr c) = [c]"
| "textOf (CStr s) = s"
| "textOf (Str s) = s"
| "textOf (ULong n) = show_nat (unat n)"
| "textOf (SInt i) = show_int (sint i)"
| "textOf (Bool b) = (if b then ''1'' else ''0'')"
| "textOf (TS ts) = desc ts"

text \<open>A string without a NUL byte: read through a \<^verbatim>\<open>char const*\<close> it comes back whole.\<close>

definition nul_free :: "string \<Rightarrow> bool" where
  "nul_free s \<longleftrightarrow> NUL \<notin> set s"

text \<open>Reading a decimal numeral back, to state that \<open>show_nat\<close> writes the number it is given.\<close>

definition digit_val :: "char \<Rightarrow> nat" where
  "digit_val c = of_char c - 48"

definition read_nat :: "string \<Rightarrow> nat" where
  "read_nat s = foldl (\<lambda>a c. 10 * a + digit_val c) 0 s"

subsection \<open>The interface as a set of operations\<close>

text \<open>
  The operations a caller can apply to an existing object, named as the specification
  names them, each dispatching to the member function that implements it.
\<close>

datatype operation =
    AppendLocation ulong string string
  | AppendFrom exception ulong string string
  | AppendText streamable
  | Message

fun apply_op :: "bool \<Rightarrow> ThrowStream \<Rightarrow> operation \<Rightarrow> ThrowStream" where
  "apply_op src this (AppendLocation line file function) = Append src this line file function"
| "apply_op src this (AppendFrom ex line file function) = Append_ex src this ex line file function"
| "apply_op src this (AppendText v) = shl this v"
| "apply_op src this Message = snd (what_call this)"

text \<open>
  The objects a program can hold, for a fixed setting of the build flag: the class has the
  two constructors and no default constructor, \<^verbatim>\<open>_desc\<close> is private, and the member
  functions are the only code that writes it. An exception given to a constructor or to
  \<open>Append_ex\<close>, or a \<^verbatim>\<open>ThrowStream\<close> streamed with \<^verbatim>\<open><<\<close>, is itself such an object.
  Copying an object gives an equal value, so copies need no rule of their own.
\<close>

fun plain :: "streamable \<Rightarrow> bool" where
  "plain (TS ts) = False"
| "plain v = True"

inductive reachable :: "bool \<Rightarrow> ThrowStream \<Rightarrow> bool" for src :: bool where
  ctor: "reachable src (ThrowStream_ctor src line file function)"
| ctor_chain: "reachable src c \<Longrightarrow>
    reachable src (ThrowStream_ctor_ex src (IsThrowStream c) line file function)"
| ctor_foreign: "reachable src (ThrowStream_ctor_ex src (Foreign m) line file function)"
| append: "reachable src t \<Longrightarrow> reachable src (Append src t line file function)"
| append_chain: "reachable src t \<Longrightarrow> reachable src c \<Longrightarrow>
    reachable src (Append_ex src t (IsThrowStream c) line file function)"
| append_foreign: "reachable src t \<Longrightarrow>
    reachable src (Append_ex src t (Foreign m) line file function)"
| text_plain: "reachable src t \<Longrightarrow> plain v \<Longrightarrow> reachable src (shl t v)"
| text_stream: "reachable src t \<Longrightarrow> reachable src c \<Longrightarrow> reachable src (shl t (TS c))"

section \<open>Basic facts\<close>

lemmas put_defs =
  put_char_def put_cstr_def put_string_def put_ulong_def put_int_def put_bool_def
  ostream_shl_ThrowStream_def stringstream_new_def str_def

lemma desc_Append:
  "desc (Append src this line file function) = desc this @ marker src line file function"
  by (simp add: Append_def marker_def put_defs)

lemma put_append: "put ss v = ss @ textOf v"
  by (cases v) (simp_all add: put_defs)

lemma desc_shl: "desc (shl this v) = desc this @ textOf v"
  by (simp add: shl_def put_append put_defs)

lemma desc_Append_ex_chain:
  "desc (Append_ex src this (IsThrowStream pts) line file function)
     = desc this @ desc pts @ marker src line file function"
  by (simp add: Append_ex_def desc_Append)

lemma desc_Append_ex_foreign:
  "desc (Append_ex src this (Foreign m) line file function)
     = desc this @ marker src line file function @ m @ marker src line file function"
  by (simp add: Append_ex_def desc_Append desc_shl)

lemma desc_foldl_shl: "desc (foldl shl this vs) = desc this @ concat (map textOf vs)"
  by (induction vs arbitrary: this) (simp_all add: desc_shl)

lemma marker_Cons: "\<exists>r. marker src line file function = newline # r"
  by (simp add: marker_def)

subsection \<open>Decimal numerals\<close>

lemma digit_val_digit_char: "d < 10 \<Longrightarrow> digit_val (digit_char d) = d"
proof -
  assume "d < 10"
  then have "d \<in> {0, 1, 2, 3, 4, 5, 6, 7, 8, 9}" by auto
  then show ?thesis by (auto simp: digit_val_def digit_char_def)
qed

lemma read_nat_snoc: "read_nat (s @ [c]) = 10 * read_nat s + digit_val c"
  by (simp add: read_nat_def)

lemma read_show_nat: "read_nat (show_nat n) = n"
proof (induction n rule: show_nat.induct)
  case (1 n)
  show ?case
  proof (cases "n < 10")
    case True
    then show ?thesis
      by (simp add: show_nat.simps [of n] read_nat_def digit_val_digit_char)
  next
    case False
    with 1 have "read_nat (show_nat (n div 10)) = n div 10" by simp
    with False show ?thesis
      by (simp add: show_nat.simps [of n] read_nat_snoc digit_val_digit_char)
  qed
qed

lemma show_nat_not_Nil: "show_nat n \<noteq> []"
  by (simp add: show_nat.simps [of n])

subsection \<open>Reading the buffer as a C string\<close>

lemma read_c_string_c_str: "read_c_string (c_str s) = takeWhile (\<lambda>c. c \<noteq> NUL) s"
  by (induction s) (simp_all add: read_c_string_def c_str_def)

lemma what_takeWhile: "what this = takeWhile (\<lambda>c. c \<noteq> NUL) (desc this)"
  by (simp add: what_def read_c_string_c_str)

lemma takeWhile_nul_free_append:
  "nul_free xs \<Longrightarrow> takeWhile (\<lambda>c. c \<noteq> NUL) (xs @ ys) = xs @ takeWhile (\<lambda>c. c \<noteq> NUL) ys"
  by (induction xs) (auto simp: nul_free_def)

lemma takeWhile_nul_free: "nul_free xs \<Longrightarrow> takeWhile (\<lambda>c. c \<noteq> NUL) xs = xs"
  using takeWhile_nul_free_append [of xs "[]"] by simp

lemma what_nul_free: "nul_free (desc this) \<Longrightarrow> what this = desc this"
  by (simp add: what_takeWhile takeWhile_nul_free)

lemma nul_free_append: "nul_free (xs @ ys) \<longleftrightarrow> nul_free xs \<and> nul_free ys"
  by (auto simp: nul_free_def)

lemma digit_char_not_NUL: "d < 10 \<Longrightarrow> digit_char d \<noteq> NUL"
proof -
  assume "d < 10"
  then have "d \<in> {0, 1, 2, 3, 4, 5, 6, 7, 8, 9}" by auto
  then show ?thesis by (auto simp: digit_char_def NUL_def)
qed

lemma nul_free_show_nat: "nul_free (show_nat n)"
proof (induction n rule: show_nat.induct)
  case (1 n)
  show ?case
  proof (cases "n < 10")
    case True
    then show ?thesis
      using digit_char_not_NUL [of n] by (auto simp: show_nat.simps [of n] nul_free_def)
  next
    case False
    with 1 have "nul_free (show_nat (n div 10))" by simp
    moreover have "digit_char (n mod 10) \<noteq> NUL" by (simp add: digit_char_not_NUL)
    ultimately show ?thesis using False
      by (auto simp: show_nat.simps [of n] nul_free_def)
  qed
qed

lemma nul_free_marker:
  "(src \<longrightarrow> nul_free file \<and> nul_free function) \<Longrightarrow> nul_free (marker src line file function)"
  using nul_free_show_nat [of "unat line"]
  by (auto simp: marker_def nul_free_def NUL_def newline_def)

lemma desc_ThrowStream_ctor:
  "desc (ThrowStream_ctor src line file function) = marker src line file function"
  by (simp add: ThrowStream_ctor_def ThrowStream_init_def desc_Append)

lemma desc_ThrowStream_ctor_ex_chain:
  "desc (ThrowStream_ctor_ex src (IsThrowStream chain) line file function)
     = desc chain @ marker src line file function"
  by (simp add: ThrowStream_ctor_ex_def ThrowStream_init_def desc_Append_ex_chain)

lemma desc_ThrowStream_ctor_ex_foreign:
  "desc (ThrowStream_ctor_ex src (Foreign m) line file function)
     = marker src line file function @ m @ marker src line file function"
  by (simp add: ThrowStream_ctor_ex_def ThrowStream_init_def desc_Append_ex_foreign)

lemma reachable_desc: "reachable src ts \<Longrightarrow> \<exists>r. desc ts = newline # r"
proof (induction rule: reachable.induct)
  case (ctor l f fn)
  show ?case
    using marker_Cons [of src l f fn] by (simp add: desc_ThrowStream_ctor)
next
  case (ctor_chain c l f fn)
  then show ?case by (auto simp: desc_ThrowStream_ctor_ex_chain)
next
  case (ctor_foreign m l f fn)
  obtain r where "marker src l f fn = newline # r"
    using marker_Cons by blast
  then show ?case by (simp add: desc_ThrowStream_ctor_ex_foreign)
next
  case (append t l f fn)
  then show ?case by (auto simp: desc_Append)
next
  case (append_chain t c l f fn)
  then show ?case by (auto simp: desc_Append_ex_chain)
next
  case (append_foreign t m l f fn)
  then show ?case by (auto simp: desc_Append_ex_foreign)
next
  case (text_plain t v)
  then show ?case by (auto simp: desc_shl)
next
  case (text_stream t c)
  then show ?case by (auto simp: desc_shl)
qed

section \<open>Origination\<close>

text \<open>
  C1, as the claim states it, fails: the message is read through the \<^verbatim>\<open>char const*\<close> that
  \<^verbatim>\<open>what()\<close> returns, and \<^verbatim>\<open>file\<close> and \<^verbatim>\<open>function\<close> are \<^verbatim>\<open>std::string\<close>
  arguments, which may hold a NUL byte. For a file name made of \<^verbatim>\<open>a\<close>, a NUL byte and
  \<^verbatim>\<open>b\<close> the message is a newline followed by \<^verbatim>\<open>( a\<close>, not the full marker.
\<close>

theorem C1_nul_counterexample:
  "what (ThrowStream_ctor True 1 [CHR ''a'', CHR 0x00, CHR ''b''] ''f'') = CHR 0x0A # ''( a''
   \<and> what (ThrowStream_ctor True 1 [CHR ''a'', CHR 0x00, CHR ''b''] ''f'')
       \<noteq> [CHR 0x0A] @ ''( '' @ [CHR ''a'', CHR 0x00, CHR ''b''] @ '':'' @ ''1'' @ '' , in ''
           @ ''f'' @ ''() )    ->  ''"
  by code_simp

text \<open>
  C1, amended. For every line, file and function, the message of a freshly constructed
  object is exactly a newline when the source detail is compiled out. When it is compiled
  in, the buffer is exactly a newline followed by
  \<^verbatim>\<open>( <file>:<line> , in <function>() )    ->  \<close>, the line being written in decimal, and
  the message equals that text whenever neither the file nor the function holds a NUL byte.
\<close>

theorem C1_fresh_message:
  "what (ThrowStream_ctor False line file function) = [CHR 0x0A]
   \<and> desc (ThrowStream_ctor True line file function)
       = [CHR 0x0A] @ ''( '' @ file @ '':'' @ show_nat (unat line) @ '' , in '' @ function
           @ ''() )    ->  ''
   \<and> (nul_free file \<and> nul_free function \<longrightarrow>
        what (ThrowStream_ctor True line file function)
          = [CHR 0x0A] @ ''( '' @ file @ '':'' @ show_nat (unat line) @ '' , in '' @ function
              @ ''() )    ->  '')"
proof -
  have off: "what (ThrowStream_ctor False line file function) = [CHR 0x0A]"
    using nul_free_marker [of False "file" "function" "line"]
    by (simp add: what_nul_free desc_ThrowStream_ctor) (simp add: marker_def newline_def)
  have buf: "desc (ThrowStream_ctor True line file function)
       = [CHR 0x0A] @ ''( '' @ file @ '':'' @ show_nat (unat line) @ '' , in '' @ function
           @ ''() )    ->  ''"
    by (simp add: desc_ThrowStream_ctor marker_def newline_def)
  have on: "what (ThrowStream_ctor True line file function)
              = desc (ThrowStream_ctor True line file function)"
    if "nul_free file \<and> nul_free function"
    using that nul_free_marker [of True "file" "function" "line"]
    by (simp add: what_nul_free desc_ThrowStream_ctor)
  from off buf on show ?thesis by simp
qed

theorem C1_fresh_message_witness:
  "nul_free ''a.txt'' \<and> nul_free ''f''
   \<and> what (ThrowStream_ctor True 10 ''a.txt'' ''f'') = CHR 0x0A # ''( a.txt:10 , in f() )    ->  ''"
proof -
  have h: "nul_free ''a.txt'' \<and> nul_free ''f''"
    by (simp add: nul_free_def NUL_def)
  have n: "show_nat (unat (10 :: ulong)) = ''10''"
    by code_simp
  from C1_fresh_message [of 10 "''a.txt''" "''f''"] h n show ?thesis by simp
qed

text \<open>
  C7. With the source detail compiled in, an exception originating at line 42 of file
  \<^verbatim>\<open>calc.src\<close> in function \<^verbatim>\<open>Divide\<close>, followed by streaming the literal
  \<^verbatim>\<open>Error: I can't take the inverse of 0!\<close> into it, has exactly the message consisting of
  a newline and \<^verbatim>\<open>( calc.src:42 , in Divide() )    ->  Error: I can't take the inverse of 0!\<close>.
\<close>

theorem C7_divide_scenario:
  "what (shl (ThrowStream_ctor True 42 ''calc.src'' ''Divide'')
          (CStr ''Error: I can't take the inverse of 0!''))
     = CHR 0x0A # ''( calc.src:42 , in Divide() )    ->  Error: I can't take the inverse of 0!''"
  by code_simp

section \<open>Propagation\<close>

text \<open>
  C2, as the claim states it, fails: a chain can hold a NUL byte (a NUL character streamed
  into it), and then the message of the object built from it stops at that byte. For the
  chain created at line 1 of \<^verbatim>\<open>a.cpp\<close> in \<^verbatim>\<open>f\<close> with a NUL character streamed in, the
  object built from it at line 2 of \<^verbatim>\<open>b.cpp\<close> in \<^verbatim>\<open>g\<close> has the chain's message alone
  as its message, without the new marker.
\<close>

theorem C2_nul_counterexample:
  "what (ThrowStream_ctor_ex True
           (IsThrowStream (shl (ThrowStream_ctor True 1 ''a.cpp'' ''f'') (Chr (CHR 0x00))))
           2 ''b.cpp'' ''g'')
     = what (shl (ThrowStream_ctor True 1 ''a.cpp'' ''f'') (Chr (CHR 0x00)))
   \<and> what (ThrowStream_ctor_ex True
           (IsThrowStream (shl (ThrowStream_ctor True 1 ''a.cpp'' ''f'') (Chr (CHR 0x00))))
           2 ''b.cpp'' ''g'')
     \<noteq> what (shl (ThrowStream_ctor True 1 ''a.cpp'' ''f'') (Chr (CHR 0x00)))
         @ marker True 2 ''b.cpp'' ''g''"
  by code_simp

text \<open>
  C2, amended. When the exception handed over is itself a \<^verbatim>\<open>ThrowStream\<close>, the constructor
  that copies an exception yields a buffer equal to that chain's full buffer followed by
  exactly one location marker for the new line, file and function, and the member function
  it delegates to adds that same text after whatever the receiving object already holds;
  nothing is duplicated. The messages satisfy the same equations whenever the buffers
  involved hold no NUL byte and, with the source detail compiled in, neither the file nor
  the function does.
\<close>

theorem C2_same_kind_merge:
  "desc (ThrowStream_ctor_ex src (IsThrowStream chain) line file function)
     = desc chain @ marker src line file function
   \<and> desc (Append_ex src this (IsThrowStream chain) line file function)
     = desc this @ desc chain @ marker src line file function
   \<and> (nul_free (desc chain) \<and> (src \<longrightarrow> nul_free file \<and> nul_free function) \<longrightarrow>
        what (ThrowStream_ctor_ex src (IsThrowStream chain) line file function)
          = what chain @ marker src line file function)
   \<and> (nul_free (desc this) \<and> nul_free (desc chain)
        \<and> (src \<longrightarrow> nul_free file \<and> nul_free function) \<longrightarrow>
        what (Append_ex src this (IsThrowStream chain) line file function)
          = what this @ what chain @ marker src line file function)"
proof -
  have m: "nul_free (marker src line file function)"
    if "src \<longrightarrow> nul_free file \<and> nul_free function"
    using that by (rule nul_free_marker)
  have c: "what (ThrowStream_ctor_ex src (IsThrowStream chain) line file function)
             = what chain @ marker src line file function"
    if "nul_free (desc chain)" "src \<longrightarrow> nul_free file \<and> nul_free function"
    using that m
    by (simp add: what_nul_free desc_ThrowStream_ctor_ex_chain nul_free_append)
  have a: "what (Append_ex src this (IsThrowStream chain) line file function)
             = what this @ what chain @ marker src line file function"
    if "nul_free (desc this)" "nul_free (desc chain)"
       "src \<longrightarrow> nul_free file \<and> nul_free function"
    using that m
    by (simp add: what_nul_free desc_Append_ex_chain nul_free_append)
  from c a show ?thesis
    by (simp add: desc_ThrowStream_ctor_ex_chain desc_Append_ex_chain)
qed

theorem C2_same_kind_merge_witness:
  "nul_free (desc (ThrowStream_ctor True 42 ''calc.src'' ''Divide''))
   \<and> nul_free (desc (ThrowStream_ctor True 7 ''main.src'' ''main''))
   \<and> nul_free ''calc.src'' \<and> nul_free ''MultiplyInverse''
   \<and> what (ThrowStream_ctor_ex True (IsThrowStream (ThrowStream_ctor True 42 ''calc.src'' ''Divide''))
            50 ''calc.src'' ''MultiplyInverse'')
       = what (ThrowStream_ctor True 42 ''calc.src'' ''Divide'')
           @ marker True 50 ''calc.src'' ''MultiplyInverse''
   \<and> what (Append_ex True (ThrowStream_ctor True 7 ''main.src'' ''main'')
            (IsThrowStream (ThrowStream_ctor True 42 ''calc.src'' ''Divide''))
            50 ''calc.src'' ''MultiplyInverse'')
       = what (ThrowStream_ctor True 7 ''main.src'' ''main'')
           @ what (ThrowStream_ctor True 42 ''calc.src'' ''Divide'')
           @ marker True 50 ''calc.src'' ''MultiplyInverse''"
proof -
  have h1: "nul_free (desc (ThrowStream_ctor True 42 ''calc.src'' ''Divide''))"
    by code_simp
  have h2: "nul_free (desc (ThrowStream_ctor True 7 ''main.src'' ''main''))"
    by code_simp
  have h3: "nul_free ''calc.src'' \<and> nul_free ''MultiplyInverse''"
    by (simp add: nul_free_def NUL_def)
  from C2_same_kind_merge [of True "ThrowStream_ctor True 42 ''calc.src'' ''Divide''" 50
      "''calc.src''" "''MultiplyInverse''" "ThrowStream_ctor True 7 ''main.src'' ''main''"]
    h1 h2 h3
  show ?thesis by simp
qed

text \<open>
  C3, as the claim states it, fails: with a file name made of \<^verbatim>\<open>x\<close>, a NUL byte and
  \<^verbatim>\<open>y\<close> the message of the object built from a foreign exception with text \<^verbatim>\<open>boom\<close>
  ends inside the first marker.
\<close>

theorem C3_nul_counterexample:
  "what (ThrowStream_ctor_ex True (Foreign ''boom'') 2 [CHR ''x'', CHR 0x00, CHR ''y''] ''g'')
     = CHR 0x0A # ''( x''
   \<and> what (ThrowStream_ctor_ex True (Foreign ''boom'') 2 [CHR ''x'', CHR 0x00, CHR ''y''] ''g'')
     \<noteq> marker True 2 [CHR ''x'', CHR 0x00, CHR ''y''] ''g'' @ ''boom''
         @ marker True 2 [CHR ''x'', CHR 0x00, CHR ''y''] ''g''"
  by code_simp

text \<open>
  C3, amended. When the exception handed over is not a \<^verbatim>\<open>ThrowStream\<close> and its \<^verbatim>\<open>what()\<close>
  text is \<open>m\<close>, the constructor that copies an exception yields a buffer made of the
  location marker, then \<open>m\<close> directly after it, then a second identical location marker,
  and nothing after the second marker. The message equals that text whenever \<open>m\<close> holds no
  NUL byte and, with the source detail compiled in, neither the file nor the function does.
\<close>

theorem C3_foreign_double_marker:
  "desc (ThrowStream_ctor_ex src (Foreign m) line file function)
     = marker src line file function @ m @ marker src line file function
   \<and> (nul_free m \<and> (src \<longrightarrow> nul_free file \<and> nul_free function) \<longrightarrow>
        what (ThrowStream_ctor_ex src (Foreign m) line file function)
          = marker src line file function @ m @ marker src line file function)"
proof -
  have w: "what (ThrowStream_ctor_ex src (Foreign m) line file function)
             = marker src line file function @ m @ marker src line file function"
    if "nul_free m" "src \<longrightarrow> nul_free file \<and> nul_free function"
    using that nul_free_marker [of src "file" "function" "line"]
    by (simp add: what_nul_free desc_ThrowStream_ctor_ex_foreign nul_free_append)
  then show ?thesis
    by (simp add: desc_ThrowStream_ctor_ex_foreign)
qed

theorem C3_foreign_double_marker_witness:
  "nul_free ''boom'' \<and> nul_free ''b.cpp'' \<and> nul_free ''g''
   \<and> what (ThrowStream_ctor_ex True (Foreign ''boom'') 2 ''b.cpp'' ''g'')
       = marker True 2 ''b.cpp'' ''g'' @ ''boom'' @ marker True 2 ''b.cpp'' ''g''"
proof -
  have h: "nul_free ''boom'' \<and> nul_free ''b.cpp'' \<and> nul_free ''g''"
    by (simp add: nul_free_def NUL_def)
  from C3_foreign_double_marker [of True "''boom''" 2 "''b.cpp''" "''g''"] h
  show ?thesis by simp
qed

section \<open>What each operation appends\<close>

text \<open>
  C4, as the claim states it, fails: absorbing a foreign exception appends two location
  markers, not one. On an object created at line 1 of \<^verbatim>\<open>a.cpp\<close> in \<^verbatim>\<open>f\<close>, absorbing a
  foreign exception with text \<^verbatim>\<open>boom\<close> at line 2 of \<^verbatim>\<open>b.cpp\<close> in \<^verbatim>\<open>g\<close> appends the
  marker, \<^verbatim>\<open>boom\<close> and the marker again; the buffer is neither the old buffer followed by
  one marker nor the old buffer followed by the absorbed text and one marker.
\<close>

theorem C4_foreign_counterexample:
  "desc (apply_op True (ThrowStream_ctor True 1 ''a.cpp'' ''f'')
           (AppendFrom (Foreign ''boom'') 2 ''b.cpp'' ''g''))
     = desc (ThrowStream_ctor True 1 ''a.cpp'' ''f'')
         @ marker True 2 ''b.cpp'' ''g'' @ ''boom'' @ marker True 2 ''b.cpp'' ''g''
   \<and> desc (apply_op True (ThrowStream_ctor True 1 ''a.cpp'' ''f'')
           (AppendFrom (Foreign ''boom'') 2 ''b.cpp'' ''g''))
     \<noteq> desc (ThrowStream_ctor True 1 ''a.cpp'' ''f'') @ marker True 2 ''b.cpp'' ''g''
   \<and> desc (apply_op True (ThrowStream_ctor True 1 ''a.cpp'' ''f'')
           (AppendFrom (Foreign ''boom'') 2 ''b.cpp'' ''g''))
     \<noteq> desc (ThrowStream_ctor True 1 ''a.cpp'' ''f'')
         @ ''boom'' @ marker True 2 ''b.cpp'' ''g''"
  by code_simp

text \<open>
  C4, amended. Adding a location appends exactly one newline-prefixed location marker.
  Absorbing a \<^verbatim>\<open>ThrowStream\<close> appends that object's buffer and then exactly one marker.
  Absorbing a foreign exception appends one marker, the exception's text and a second,
  identical marker. Text streamed in afterwards follows whatever the operation left in the
  buffer, value by value in the order of the calls.
\<close>

theorem C4_annotation_appends:
  "desc (apply_op src this (AppendLocation line file function))
     = desc this @ marker src line file function
   \<and> desc (apply_op src this (AppendFrom (IsThrowStream chain) line file function))
     = desc this @ desc chain @ marker src line file function
   \<and> desc (apply_op src this (AppendFrom (Foreign m) line file function))
     = desc this @ marker src line file function @ m @ marker src line file function
   \<and> desc (foldl shl (apply_op src this op) vs)
     = desc (apply_op src this op) @ concat (map textOf vs)"
  by (simp add: desc_Append desc_Append_ex_chain desc_Append_ex_foreign desc_foldl_shl)

text \<open>
  C5. No operation of the interface truncates or rewrites the buffer: whatever operation is
  applied, the buffer before it is a prefix of the buffer after it.
\<close>

theorem C5_append_only: "prefix (desc this) (desc (apply_op src this op))"
proof (cases op)
  case (AppendLocation l f fn)
  then show ?thesis by (simp add: desc_Append)
next
  case (AppendFrom ex l f fn)
  then show ?thesis
    by (cases ex) (simp_all add: desc_Append_ex_chain desc_Append_ex_foreign)
next
  case (AppendText v)
  then show ?thesis by (simp add: desc_shl)
next
  case Message
  then show ?thesis by (simp add: what_call_def)
qed

section \<open>Streaming text\<close>

text \<open>
  C6, as the claim states it, fails: the template operator accepts a NUL character, and
  after it nothing streamed in reaches the message. On the object created at line 1 of
  \<^verbatim>\<open>a.cpp\<close> in \<^verbatim>\<open>f\<close>, streaming a NUL character and then \<^verbatim>\<open>x\<close> leaves the message as
  it was.
\<close>

theorem C6_nul_counterexample:
  "what (shl (shl (ThrowStream_ctor True 1 ''a.cpp'' ''f'') (Chr (CHR 0x00))) (CStr ''x''))
     = what (ThrowStream_ctor True 1 ''a.cpp'' ''f'')
   \<and> what (shl (shl (ThrowStream_ctor True 1 ''a.cpp'' ''f'') (Chr (CHR 0x00))) (CStr ''x''))
     \<noteq> what (ThrowStream_ctor True 1 ''a.cpp'' ''f'') @ textOf (Chr (CHR 0x00))
         @ textOf (CStr ''x'')"
  by code_simp

text \<open>
  C6, amended. Streaming two values into an object one after the other gives a buffer made
  of the object's buffer followed by the standard text of the first value and then the
  standard text of the second, with nothing in between. The message is the object's message
  followed by those two texts whenever the object's buffer and the two texts hold no NUL
  byte.
\<close>

theorem C6_stream_two_values:
  "desc (shl (shl obj v1) v2) = desc obj @ textOf v1 @ textOf v2
   \<and> (nul_free (desc obj) \<and> nul_free (textOf v1) \<and> nul_free (textOf v2) \<longrightarrow>
        what (shl (shl obj v1) v2) = what obj @ textOf v1 @ textOf v2)"
  by (simp add: what_nul_free desc_shl nul_free_append)

theorem C6_stream_two_values_witness:
  "nul_free (desc (ThrowStream_ctor True 42 ''calc.src'' ''Divide''))
   \<and> nul_free (textOf (CStr ''a = '')) \<and> nul_free (textOf (SInt 7))
   \<and> what (shl (shl (ThrowStream_ctor True 42 ''calc.src'' ''Divide'') (CStr ''a = '')) (SInt 7))
       = what (ThrowStream_ctor True 42 ''calc.src'' ''Divide'') @ textOf (CStr ''a = '')
           @ textOf (SInt 7)"
proof -
  have h: "nul_free (desc (ThrowStream_ctor True 42 ''calc.src'' ''Divide''))
           \<and> nul_free (textOf (CStr ''a = '')) \<and> nul_free (textOf (SInt 7))"
    by code_simp
  from C6_stream_two_values [of "ThrowStream_ctor True 42 ''calc.src'' ''Divide''"
      "CStr ''a = ''" "SInt 7"] h
  show ?thesis by simp
qed

text \<open>
  C10, as the claim states it, fails: when the first object's buffer holds a NUL byte, the
  message after streaming the second object into it is still the first object's message
  alone.
\<close>

theorem C10_nul_counterexample:
  "what (shl (shl (ThrowStream_ctor True 1 ''a.cpp'' ''f'') (Chr (CHR 0x00)))
          (TS (ThrowStream_ctor True 2 ''b.cpp'' ''g'')))
     = what (shl (ThrowStream_ctor True 1 ''a.cpp'' ''f'') (Chr (CHR 0x00)))
   \<and> what (shl (shl (ThrowStream_ctor True 1 ''a.cpp'' ''f'') (Chr (CHR 0x00)))
          (TS (ThrowStream_ctor True 2 ''b.cpp'' ''g'')))
     \<noteq> what (shl (ThrowStream_ctor True 1 ''a.cpp'' ''f'') (Chr (CHR 0x00)))
         @ what (ThrowStream_ctor True 2 ''b.cpp'' ''g'')"
  by code_simp

text \<open>
  C10, amended. Streaming one \<^verbatim>\<open>ThrowStream\<close> into another goes through the template
  operator and the inserter the header declares for the class, so it appends the whole
  buffer of the second object, without a separator and without a new location marker. The
  message is the first object's message followed by the second's whenever the first
  object's buffer holds no NUL byte.
\<close>

theorem C10_stream_ThrowStream:
  "desc (shl ts1 (TS ts2)) = desc ts1 @ desc ts2
   \<and> (nul_free (desc ts1) \<longrightarrow> what (shl ts1 (TS ts2)) = what ts1 @ what ts2)"
proof -
  have d: "desc (shl ts1 (TS ts2)) = desc ts1 @ desc ts2"
    by (simp add: shl_def put_defs)
  have "what (shl ts1 (TS ts2)) = what ts1 @ what ts2" if "nul_free (desc ts1)"
    using that
    by (simp add: what_takeWhile d takeWhile_nul_free_append takeWhile_nul_free)
  with d show ?thesis by simp
qed

theorem C10_stream_ThrowStream_witness:
  "nul_free (desc (ThrowStream_ctor True 1 ''a.cpp'' ''f''))
   \<and> what (shl (ThrowStream_ctor True 1 ''a.cpp'' ''f'')
            (TS (shl (ThrowStream_ctor True 2 ''b.cpp'' ''g'') (Chr (CHR 0x00)))))
       = what (ThrowStream_ctor True 1 ''a.cpp'' ''f'')
           @ what (shl (ThrowStream_ctor True 2 ''b.cpp'' ''g'') (Chr (CHR 0x00)))"
proof -
  have h: "nul_free (desc (ThrowStream_ctor True 1 ''a.cpp'' ''f''))"
    by code_simp
  from C10_stream_ThrowStream [of "ThrowStream_ctor True 1 ''a.cpp'' ''f''"
      "shl (ThrowStream_ctor True 2 ''b.cpp'' ''g'') (Chr (CHR 0x00))"] h
  show ?thesis by simp
qed

section \<open>Reading the message\<close>

text \<open>
  C8. Reading the message leaves the object as it was, and a second read directly after the
  first returns the same string.
\<close>

theorem C8_what_is_pure:
  "snd (what_call this) = this
   \<and> fst (what_call (snd (what_call this))) = fst (what_call this)
   \<and> apply_op src this Message = this"
  by (simp add: what_call_def)

text \<open>
  C9. Every object a program can hold has a non-empty message whose first character is a
  newline.
\<close>

theorem C9_leading_newline:
  "reachable src ts \<Longrightarrow> what ts \<noteq> [] \<and> hd (what ts) = CHR 0x0A"
proof -
  assume "reachable src ts"
  then obtain r where "desc ts = newline # r"
    using reachable_desc by blast
  then show ?thesis
    by (simp add: what_takeWhile newline_def NUL_def)
qed

theorem C9_leading_newline_witness:
  "reachable True (shl (ThrowStream_ctor True 42 ''calc.src'' ''Divide'') (CStr ''failed''))
   \<and> what (shl (ThrowStream_ctor True 42 ''calc.src'' ''Divide'') (CStr ''failed'')) \<noteq> []
   \<and> hd (what (shl (ThrowStream_ctor True 42 ''calc.src'' ''Divide'') (CStr ''failed'')))
       = CHR 0x0A"
proof -
  have r: "reachable True (shl (ThrowStream_ctor True 42 ''calc.src'' ''Divide'') (CStr ''failed''))"
    by (rule reachable.text_plain, rule reachable.ctor) simp
  from C9_leading_newline [OF r] r show ?thesis by simp
qed

end
